theory Spec2Isabelle
  imports Complex_Main
begin

section \<open>Python string operations used by the chunker\<close>

text \<open>
  Texts are Python \<open>str\<close> values, modelled as lists of 8-bit characters (code points
  0 to 255). \<open>py_isspace\<close> is \<open>str.isspace\<close> on one such code point: the characters
  that \<open>str.strip()\<close> removes.
\<close>

definition py_isspace :: "char \<Rightarrow> bool" where
  "py_isspace c =
     (let n = (of_char c :: nat)
      in (9 \<le> n \<and> n \<le> 13) \<or> (28 \<le> n \<and> n \<le> 32) \<or> n = 133 \<or> n = 160)"

definition lstrip :: "string \<Rightarrow> string" where
  "lstrip s = dropWhile py_isspace s"

definition rstrip :: "string \<Rightarrow> string" where
  "rstrip s = rev (dropWhile py_isspace (rev s))"

definition strip :: "string \<Rightarrow> string" where
  "strip s = lstrip (rstrip s)"

text \<open>
  A slice bound of \<open>s[i:j]\<close> on a sequence of length \<open>n\<close>: a negative bound counts
  from the end, and every bound is clamped into \<open>0..n\<close>.
\<close>

definition py_index :: "int \<Rightarrow> int \<Rightarrow> nat" where
  "py_index n i = nat (if i < 0 then max (i + n) 0 else min i n)"

definition py_slice :: "'a list \<Rightarrow> int \<Rightarrow> int \<Rightarrow> 'a list" where
  "py_slice s i j =
     (let n = int (length s); lo = py_index n i; hi = py_index n j
      in take (hi - lo) (drop lo s))"

text \<open>\<open>s.rfind(sub)\<close>: the highest index at which \<open>sub\<close> occurs in \<open>s\<close>, or \<open>-1\<close>.\<close>

fun rfind_at :: "string \<Rightarrow> string \<Rightarrow> nat \<Rightarrow> int" where
  "rfind_at s sub 0 = (if take (length sub) s = sub then 0 else - 1)"
| "rfind_at s sub (Suc i) =
     (if take (length sub) (drop (Suc i) s) = sub then int (Suc i) else rfind_at s sub i)"

definition rfind :: "string \<Rightarrow> string \<Rightarrow> int" where
  "rfind s sub =
     (if length s < length sub then - 1 else rfind_at s sub (length s - length sub))"

section \<open>TextSplitter (app/utils/text\_splitter.py)\<close>

record TextSplitter =
  chunk_size :: int
  chunk_overlap :: int

definition sentence_endings :: "string list" where
  "sentence_endings =
     [''. '', ''! '', ''? '',
      [CHR ''.'', CHR 0x0A], [CHR ''!'', CHR 0x0A], [CHR ''?'', CHR 0x0A]]"

text \<open>
  One round of the loop over \<open>sentence_endings\<close>: the comparison is between the
  position of this ending and the best value so far, which already includes the length
  of an earlier ending, exactly as the source writes it.
\<close>

definition best_pos_step :: "string \<Rightarrow> int \<Rightarrow> string \<Rightarrow> int" where
  "best_pos_step substring best_pos ending =
     (let pos = rfind substring ending
      in if pos > best_pos then pos + int (length ending) else best_pos)"

definition find_sentence_boundary :: "string \<Rightarrow> int \<Rightarrow> int \<Rightarrow> int" where
  "find_sentence_boundary text start endpos =
     (let search_start = max start (endpos - 100);
          substring = py_slice text search_start endpos;
          best_pos = foldl (best_pos_step substring) (- 1) sentence_endings
      in if best_pos > 0 then search_start + best_pos else - 1)"

definition find_word_boundary :: "string \<Rightarrow> int \<Rightarrow> int \<Rightarrow> int" where
  "find_word_boundary text start endpos =
     (let search_start = max start (endpos - 50);
          substring = py_slice text search_start endpos;
          pos = rfind substring '' ''
      in if pos > 0 then search_start + pos + 1 else endpos)"

text \<open>
  The value of \<open>end\<close> when the chunk is extracted (lines 43 to 55 of the source): the
  window end, moved back to a sentence or word boundary when the window does not reach
  the end of the text.
\<close>

definition window_end :: "TextSplitter \<Rightarrow> string \<Rightarrow> int \<Rightarrow> int" where
  "window_end self text start =
     (let text_length = int (length text);
          endpos = start + chunk_size self
      in if endpos < text_length then
           (let sentence_end = find_sentence_boundary text start endpos
            in if sentence_end > start then sentence_end
               else (let word_end = find_word_boundary text start endpos
                     in if word_end > start then word_end else endpos))
         else endpos)"

text \<open>
  The \<open>while\<close> loop of \<open>split_text\<close>. Nothing bounds the number of rounds (the next
  start is \<open>end - chunk_overlap\<close>, which need not exceed the current start), so the
  loop is a partial function: \<open>None\<close> means that the call does not return.
\<close>

partial_function (option) split_loop ::
  "TextSplitter \<Rightarrow> string \<Rightarrow> int \<Rightarrow> string list \<Rightarrow> string list option" where
  "split_loop self text start chunks =
     (if start < int (length text) then
        split_loop self text
          (if window_end self text start < int (length text)
           then window_end self text start - chunk_overlap self
           else int (length text))
          (if strip (py_slice text start (window_end self text start)) \<noteq> []
           then chunks @ [strip (py_slice text start (window_end self text start))]
           else chunks)
      else Some chunks)"

declare split_loop.simps [code]

definition split_text :: "TextSplitter \<Rightarrow> string \<Rightarrow> string list option" where
  "split_text self text = (if text = [] then Some [] else split_loop self text 0 [])"

section \<open>Values, errors and the configuration\<close>

text \<open>
  Metadata values are strings or integers. A Python exception is a value of \<open>error\<close>,
  carrying its message; the numbers that the source interpolates into a message are left
  out of the text.
\<close>

datatype py_val = VStr string | VInt int

datatype error =
    ValueError string
  | ValidationError string
  | ConnectionError string
  | Exception string

fun error_message :: "error \<Rightarrow> string" where
  "error_message (ValueError m) = m"
| "error_message (ValidationError m) = m"
| "error_message (ConnectionError m) = m"
| "error_message (Exception m) = m"

type_synonym metadata = "string \<rightharpoonup> py_val"

text \<open>
  \<open>Settings.validate_chunk_overlap\<close> (app/core/config.py): the field validator of
  \<open>CHUNK_OVERLAP\<close>. \<open>info_data\<close> holds the fields validated before it; \<open>CHUNK_SIZE\<close>
  is absent from it when its own validation failed.
\<close>

definition validate_chunk_overlap :: "int \<Rightarrow> (string \<rightharpoonup> int) \<Rightarrow> error + int" where
  "validate_chunk_overlap v info_data =
     (let chunk_size = (case info_data ''CHUNK_SIZE'' of Some c \<Rightarrow> c | None \<Rightarrow> 1000)
      in if v \<ge> chunk_size
         then Inl (ValueError ''CHUNK_OVERLAP must be less than CHUNK_SIZE'')
         else Inr v)"

section \<open>The vector backend and the world outside\<close>

text \<open>
  The Chroma collection is an insertion-ordered list of entries. Everything the services
  obtain from outside the repository is a field of \<open>world\<close>: the configuration, the
  similarity query of the backend (\<open>similarity_search_with_score\<close>, which returns
  documents paired with distances, or raises), the question-answering chain with the language model
  behind it, the state of the Ollama connection, the text extraction (pypdf) and the
  splitter (LangChain's \<open>RecursiveCharacterTextSplitter\<close>) of the upload path, and the values that \<open>uuid.uuid4()\<close>
  and \<open>datetime.utcnow()\<close> deliver during the call at hand.
\<close>

record entry =
  entry_id :: string
  page_content :: string
  entry_metadata :: metadata

type_synonym collection = "entry list"

record world =
  TOP_K_RETRIEVAL :: int
  upload_dir :: string
  search_backend :: "collection \<Rightarrow> string \<Rightarrow> int \<Rightarrow> error + (entry \<times> real) list"
  qa_chain :: "entry list \<Rightarrow> string \<Rightarrow> error + string"
  extract_text :: "string \<Rightarrow> error + string"
  recursive_split :: "string \<Rightarrow> string list"
  ollama_failure :: "error option"
  uuid4 :: "nat \<Rightarrow> string"
  utcnow :: string

text \<open>\<open>vectorstore.add_texts(texts, metadatas, ids)\<close>: one new entry per text.\<close>

definition add_texts :: "string list \<Rightarrow> metadata list \<Rightarrow> string list \<Rightarrow> collection \<Rightarrow> collection" where
  "add_texts texts metadatas ids coll =
     coll @ map (\<lambda>(t, m, i). \<lparr>entry_id = i, page_content = t, entry_metadata = m\<rparr>)
                (zip texts (zip metadatas ids))"

text \<open>
  \<open>collection.delete(ids=ids)\<close>: the backend first validates its argument and raises
  a \<open>ValueError\<close> when an id is not a string; otherwise it removes the entries whose id
  is among \<open>ids\<close> (an id that is not stored is no error).
\<close>

fun is_VStr :: "py_val \<Rightarrow> bool" where
  "is_VStr (VStr s) = True"
| "is_VStr (VInt i) = False"

definition collection_delete :: "py_val list \<Rightarrow> collection \<Rightarrow> error + collection" where
  "collection_delete ids coll =
     (if \<not> list_all is_VStr ids
      then Inl (ValueError ''Expected ID to be a str'')
      else Inr (filter (\<lambda>e. VStr (entry_id e) \<notin> set ids) coll))"

text \<open>
  A reference backend for running the model: the \<open>k\<close> entries nearest to the query under
  a given distance, nearest first, ties in insertion order.
\<close>

definition knn_backend ::
  "(string \<Rightarrow> string \<Rightarrow> real) \<Rightarrow> collection \<Rightarrow> string \<Rightarrow> int \<Rightarrow> error + (entry \<times> real) list" where
  "knn_backend distance coll query k =
     (if k \<le> 0 then Inl (ValueError ''Number of requested results cannot be negative, or zero'')
      else Inr (take (nat k) (sort_key snd (map (\<lambda>e. (e, distance query (page_content e))) coll))))"

section \<open>VectorStoreService (app/services/vector\_store.py)\<close>

record add_result =
  add_status :: string
  documents_added :: int

definition chunk_metadata :: "world \<Rightarrow> metadata \<Rightarrow> nat \<Rightarrow> nat \<Rightarrow> metadata" where
  "chunk_metadata w metadata total_chunks i =
     metadata(''chunk_id'' \<mapsto> VStr (uuid4 w (Suc i)),
              ''chunk_index'' \<mapsto> VInt (int i),
              ''total_chunks'' \<mapsto> VInt (int total_chunks),
              ''timestamp'' \<mapsto> VStr (utcnow w))"

text \<open>
  \<open>add_documents\<close>: the chunk with index \<open>i\<close> gets the id \<open>uuid4 w (Suc i)\<close> (index 0 of
  the supply is left to the caller). The write to the backend is taken to succeed.
\<close>

definition add_documents :: "world \<Rightarrow> string list \<Rightarrow> metadata \<Rightarrow> collection \<Rightarrow> add_result \<times> collection" where
  "add_documents w chunks metadata coll =
     (if chunks = [] then (\<lparr>add_status = ''skipped'', documents_added = 0\<rparr>, coll)
      else
        (let metadatas = map (chunk_metadata w metadata (length chunks)) [0..<length chunks];
             ids = map (\<lambda>i. uuid4 w (Suc i)) [0..<length chunks]
         in (\<lparr>add_status = ''success'', documents_added = int (length chunks)\<rparr>,
             add_texts chunks metadatas ids coll)))"

record search_result =
  result_content :: string
  result_metadata :: metadata
  result_score :: real
  result_id :: py_val

text \<open>Line 225: \<open>similarity_score = 1 - score if score < 1 else 0.0\<close>.\<close>

definition similarity_score :: "real \<Rightarrow> real" where
  "similarity_score score = (if score < 1 then 1 - score else 0)"

definition format_result :: "entry \<times> real \<Rightarrow> search_result" where
  "format_result r =
     (case r of (doc, score) \<Rightarrow>
        \<lparr>result_content = page_content doc,
         result_metadata = entry_metadata doc,
         result_score = similarity_score score,
         result_id = (case entry_metadata doc ''chunk_id'' of
                        Some v \<Rightarrow> v | None \<Rightarrow> VStr ''unknown'')\<rparr>)"

definition similarity_search ::
  "world \<Rightarrow> collection \<Rightarrow> string \<Rightarrow> int option \<Rightarrow> error + search_result list" where
  "similarity_search w coll query k =
     (let k' = (case k of None \<Rightarrow> TOP_K_RETRIEVAL w | Some v \<Rightarrow> v)
      in case search_backend w coll query k' of
           Inl e \<Rightarrow> Inl (Exception (''Error searching vector store: '' @ error_message e))
         | Inr results \<Rightarrow> Inr (map format_result results))"

definition delete_documents :: "py_val list \<Rightarrow> collection \<Rightarrow> error + collection" where
  "delete_documents ids coll = collection_delete ids coll"

section \<open>DocumentService (app/services/document\_service.py)\<close>

record processing_result =
  pr_chunks :: "string list"
  pr_text_length :: int
  pr_error :: "string option"

text \<open>
  \<open>DocumentProcessor.process_document\<close>: extraction, then chunking, with the early
  return for a document without text.
\<close>

definition document_processor_process :: "world \<Rightarrow> string \<Rightarrow> error + processing_result" where
  "document_processor_process w file_content =
     (case extract_text w file_content of
        Inl e \<Rightarrow> Inl (Exception (''Error processing document: '' @ error_message e))
      | Inr extracted_text \<Rightarrow>
          if strip extracted_text = [] then
            Inr \<lparr>pr_chunks = [], pr_text_length = 0,
                 pr_error = Some ''No text could be extracted from the document''\<rparr>
          else
            Inr \<lparr>pr_chunks = recursive_split w extracted_text,
                 pr_text_length = int (length extracted_text),
                 pr_error = None\<rparr>)"

record doc_meta =
  meta_id :: string
  meta_filename :: string
  meta_upload_date :: string
  meta_file_path :: string
  meta_chunk_count :: int
  meta_chunk_ids :: "py_val list"
  meta_size :: int
  meta_text_length :: int
  meta_processed :: bool

record DocumentService =
  documents_metadata :: "string \<rightharpoonup> doc_meta"
  files :: "string \<rightharpoonup> string"

record upload_result =
  up_document_id :: string
  chunks_created :: int
  up_error :: "string option"

text \<open>
  \<open>DocumentService.process_document\<close>. The vector store is the process-wide singleton,
  so its collection is passed and returned next to the service. The list stored under
  \<open>chunk_ids\<close> is the one the source builds at line 324: a single element, the number
  of documents added.
\<close>

definition process_document ::
  "world \<Rightarrow> string \<Rightarrow> string \<Rightarrow> DocumentService \<times> collection
     \<Rightarrow> (error + upload_result) \<times> DocumentService \<times> collection" where
  "process_document w filename file_content st =
     (case st of (self, coll) \<Rightarrow>
       (let document_id = uuid4 w 0;
            file_path = upload_dir w @ ''/'' @ document_id @ ''_'' @ filename;
            self1 = self\<lparr>files := (files self)(file_path \<mapsto> file_content)\<rparr>
        in case document_processor_process w file_content of
             Inl e \<Rightarrow> (Inl e, self1, coll)
           | Inr processing \<Rightarrow>
               if pr_chunks processing = [] then
                 (Inr \<lparr>up_document_id = document_id, chunks_created = 0,
                       up_error = Some (case pr_error processing of
                                          Some m \<Rightarrow> m | None \<Rightarrow> ''No text extracted'')\<rparr>,
                  self1, coll)
               else
                 (let chunks = pr_chunks processing;
                      base_metadata = [''filename'' \<mapsto> VStr filename,
                                       ''document_id'' \<mapsto> VStr document_id];
                      added = add_documents w chunks base_metadata coll;
                      chunk_ids = [VInt (documents_added (fst added))];
                      record = \<lparr>meta_id = document_id,
                                meta_filename = filename,
                                meta_upload_date = utcnow w,
                                meta_file_path = file_path,
                                meta_chunk_count = int (length chunks),
                                meta_chunk_ids = chunk_ids,
                                meta_size = int (length file_content),
                                meta_text_length = pr_text_length processing,
                                meta_processed = True\<rparr>
                  in (Inr \<lparr>up_document_id = document_id,
                            chunks_created = int (length chunks),
                            up_error = None\<rparr>,
                      self1\<lparr>documents_metadata :=
                              (documents_metadata self1)(document_id \<mapsto> record)\<rparr>,
                      snd added))))"

definition delete_document ::
  "string \<Rightarrow> DocumentService \<times> collection
     \<Rightarrow> (error + unit) \<times> DocumentService \<times> collection" where
  "delete_document document_id st =
     (case st of (self, coll) \<Rightarrow>
       (case documents_metadata self document_id of
          None \<Rightarrow> (Inl (ValueError ''Document not found''), self, coll)
        | Some metadata \<Rightarrow>
            (let chunk_ids = meta_chunk_ids metadata
             in case (if chunk_ids \<noteq> [] then delete_documents chunk_ids coll else Inr coll) of
                  Inl e \<Rightarrow> (Inl e, self, coll)
                | Inr coll' \<Rightarrow>
                    (let file_path = meta_file_path metadata;
                         files' = (if file_path \<noteq> [] \<and> file_path \<in> dom (files self)
                                   then (files self)(file_path := None) else files self)
                     in (Inr (),
                         self\<lparr>files := files',
                              documents_metadata := (documents_metadata self)(document_id := None)\<rparr>,
                         coll')))))"

section \<open>LLMService (app/services/llm\_service.py)\<close>

record llm_source =
  ls_content :: string
  ls_metadata :: metadata
  ls_source :: py_val

record llm_response =
  llm_answer :: string
  source_documents :: "llm_source list"
  llm_query :: string

text \<open>
  The handlers of \<open>generate_response\<close>: a \<open>ConnectionError\<close> passes unchanged, any
  other exception is wrapped.
\<close>

fun wrap_generation_error :: "error \<Rightarrow> error" where
  "wrap_generation_error (ConnectionError m) = ConnectionError m"
| "wrap_generation_error e = Exception (''Error generating response: '' @ error_message e)"

text \<open>
  \<open>generate_response(query, vector_store)\<close>: checks the connection, lets the retriever
  of the vector store fetch \<open>TOP_K_RETRIEVAL\<close> documents for the query and hands them
  with the query to the chain. Its only inputs are the query and the vector store.
\<close>

definition generate_response :: "world \<Rightarrow> collection \<Rightarrow> string \<Rightarrow> error + llm_response" where
  "generate_response w coll query =
     (case ollama_failure w of
        Some e \<Rightarrow> Inl (ConnectionError (error_message e))
      | None \<Rightarrow>
          (case search_backend w coll query (TOP_K_RETRIEVAL w) of
             Inl e \<Rightarrow> Inl (wrap_generation_error e)
           | Inr hits \<Rightarrow>
               (case qa_chain w (map fst hits) query of
                  Inl e \<Rightarrow> Inl (wrap_generation_error e)
                | Inr result \<Rightarrow>
                    Inr \<lparr>llm_answer = strip result,
                         source_documents =
                           map (\<lambda>doc. \<lparr>ls_content = page_content doc,
                                        ls_metadata = entry_metadata doc,
                                        ls_source = (case entry_metadata doc ''filename'' of
                                                       Some v \<Rightarrow> v | None \<Rightarrow> VStr ''Unknown'')\<rparr>)
                               (map fst hits),
                         llm_query = query\<rparr>)))"

section \<open>RAGService (app/services/rag\_service.py)\<close>

record ConversationMessage =
  role :: string
  message_content :: string
  message_timestamp :: string

record ConversationHistory =
  history_id :: string
  messages :: "ConversationMessage list"
  created_at :: string
  updated_at :: string

record SourceDocument =
  filename :: string
  page :: "int option"
  chunk_id :: string
  relevance_score :: real
  content_preview :: string

record query_response =
  answer :: string
  sources :: "SourceDocument list"
  conversation_id :: string

text \<open>
  The service holds the conversations. \<open>generate_calls\<close> is not a field of the source:
  it records the query of every call of \<open>generate_response\<close>, so that the call is
  visible in the state.
\<close>

record RAGService =
  conversations :: "string \<rightharpoonup> ConversationHistory"
  generate_calls :: "string list"

definition digit_char :: "nat \<Rightarrow> char" where
  "digit_char d = char_of (48 + d)"

fun str_nat :: "nat \<Rightarrow> string" where
  "str_nat n = (if n < 10 then [digit_char n] else str_nat (n div 10) @ [digit_char (n mod 10)])"

declare str_nat.simps [simp del]

fun str_val :: "py_val \<Rightarrow> string" where
  "str_val (VStr s) = s"
| "str_val (VInt i) = (if i < 0 then CHR ''-'' # str_nat (nat (- i)) else str_nat (nat i))"

fun join :: "string \<Rightarrow> string list \<Rightarrow> string" where
  "join sep [] = []"
| "join sep [x] = x"
| "join sep (x # y # ys) = x @ sep @ join sep (y # ys)"

definition context_part :: "nat \<Rightarrow> search_result \<Rightarrow> string" where
  "context_part i doc =
     (let source = (case result_metadata doc ''source'' of
                      Some v \<Rightarrow> v | None \<Rightarrow> VStr ''Unknown'')
      in ''[Document '' @ str_nat i @ '' - '' @ str_val source @ '']'' @ [CHR 0x0A]
         @ result_content doc @ [CHR 0x0A])"

definition build_context :: "search_result list \<Rightarrow> string" where
  "build_context documents =
     join [CHR 0x0A] (map (\<lambda>(i, doc). context_part i doc)
                          (zip [1..<Suc (length documents)] documents))"

definition format_conversation_history :: "ConversationHistory \<Rightarrow> string" where
  "format_conversation_history conversation =
     join [CHR 0x0A]
       (map (\<lambda>msg. (if role msg = ''user'' then ''User'' else ''Assistant'')
                    @ '': '' @ message_content msg)
            (py_slice (messages conversation) (- 5) (int (length (messages conversation)))))"

text \<open>
  Building one \<open>SourceDocument\<close>, with the checks of its schema: the file name and the
  chunk id are strings, the page is absent or an integer from 1 on, the relevance score
  lies between 0 and 1. (A string is not parsed as a page number here.) The file name is
  read under the key \<open>source\<close>.
\<close>

definition source_document :: "world \<Rightarrow> nat \<Rightarrow> search_result \<Rightarrow> error + SourceDocument" where
  "source_document w i doc =
     (let metadata = result_metadata doc;
          content = result_content doc;
          name = (case metadata ''source'' of Some v \<Rightarrow> v | None \<Rightarrow> VStr ''Unknown'');
          cid = (case metadata ''chunk_id'' of Some v \<Rightarrow> v | None \<Rightarrow> VStr (uuid4 w (Suc i)));
          preview = (if length content > 200 then py_slice content 0 200 @ ''...'' else content)
      in if \<not> is_VStr name then Inl (ValidationError ''filename: Input should be a valid string'')
         else if \<not> (case metadata ''page'' of
                       None \<Rightarrow> True | Some (VInt p) \<Rightarrow> 1 \<le> p | Some (VStr s) \<Rightarrow> False)
           then Inl (ValidationError ''page: Input should be a valid integer from 1 on'')
         else if \<not> is_VStr cid then Inl (ValidationError ''chunk_id: Input should be a valid string'')
         else if \<not> (0 \<le> result_score doc \<and> result_score doc \<le> 1)
           then Inl (ValidationError ''relevance_score: Input should be between 0 and 1'')
         else Inr \<lparr>filename = str_val name,
                   page = (case metadata ''page'' of Some (VInt p) \<Rightarrow> Some p | _ \<Rightarrow> None),
                   chunk_id = str_val cid,
                   relevance_score = result_score doc,
                   content_preview = preview\<rparr>)"

fun format_sources_from :: "world \<Rightarrow> nat \<Rightarrow> search_result list \<Rightarrow> error + SourceDocument list" where
  "format_sources_from w i [] = Inr []"
| "format_sources_from w i (doc # documents) =
     (case source_document w i doc of
        Inl e \<Rightarrow> Inl e
      | Inr s \<Rightarrow> (case format_sources_from w (Suc i) documents of
                    Inl e \<Rightarrow> Inl e
                  | Inr ss \<Rightarrow> Inr (s # ss)))"

definition format_sources :: "world \<Rightarrow> search_result list \<Rightarrow> error + SourceDocument list" where
  "format_sources w documents = format_sources_from w 0 documents"

definition update_conversation :: "world \<Rightarrow> string \<Rightarrow> string \<Rightarrow> string \<Rightarrow> RAGService \<Rightarrow> RAGService" where
  "update_conversation w cid question ans self =
     (let conversation = (case conversations self cid of
                            Some c \<Rightarrow> c
                          | None \<Rightarrow> \<lparr>history_id = cid, messages = [],
                                      created_at = utcnow w, updated_at = utcnow w\<rparr>);
          conversation' = conversation
            \<lparr>messages := messages conversation
               @ [\<lparr>role = ''user'', message_content = question, message_timestamp = utcnow w\<rparr>,
                  \<lparr>role = ''assistant'', message_content = ans, message_timestamp = utcnow w\<rparr>],
             updated_at := utcnow w\<rparr>
      in self\<lparr>conversations := (conversations self)(cid \<mapsto> conversation')\<rparr>)"

definition no_information_answer :: string where
  "no_information_answer =
     ''I couldn't find any relevant information in the documents to answer your question.''"

text \<open>
  \<open>RAGService.query\<close>. The context and the conversation context are computed at the
  places where the source computes them; the source passes neither of them on.
\<close>

definition query ::
  "world \<Rightarrow> RAGService \<Rightarrow> collection \<Rightarrow> string \<Rightarrow> string option \<Rightarrow> int
     \<Rightarrow> error + query_response \<times> RAGService" where
  "query w self coll question conversation_id_arg max_results =
     (let cid = (case conversation_id_arg of
                   None \<Rightarrow> uuid4 w 0
                 | Some c \<Rightarrow> if c = [] then uuid4 w 0 else c)
      in case similarity_search w coll question (Some max_results) of
           Inl e \<Rightarrow> Inl e
         | Inr retrieved_docs \<Rightarrow>
             if retrieved_docs = [] then
               Inr (\<lparr>answer = no_information_answer, sources = [], conversation_id = cid\<rparr>, self)
             else
               (let context = build_context retrieved_docs;
                    conversation_context =
                      (case conversations self cid of
                         Some c \<Rightarrow> format_conversation_history c | None \<Rightarrow> [])
                in case generate_response w coll question of
                     Inl e \<Rightarrow> Inl e
                   | Inr result \<Rightarrow>
                       (case format_sources w retrieved_docs of
                          Inl e \<Rightarrow> Inl e
                        | Inr srcs \<Rightarrow>
                            Inr (\<lparr>answer = llm_answer result, sources = srcs,
                                   conversation_id = cid\<rparr>,
                                 update_conversation w cid question (llm_answer result)
                                   (self\<lparr>generate_calls := generate_calls self @ [question]\<rparr>)))))"

section \<open>A concrete world for running the model\<close>

text \<open>
  Distances are read from a table keyed by the chunk text (1 for a text that is not
  listed); the chain answers with the query and the texts of the documents it was given;
  extraction returns the file content, and the upload splitter makes one chunk of it.
  \<open>TOP_K_RETRIEVAL\<close> has its default, 5.
\<close>

definition table_distance :: "(string \<times> real) list \<Rightarrow> string \<Rightarrow> string \<Rightarrow> real" where
  "table_distance table question t = (case map_of table t of Some d \<Rightarrow> d | None \<Rightarrow> 1)"

definition echo_chain :: "entry list \<Rightarrow> string \<Rightarrow> error + string" where
  "echo_chain docs question = Inr (question @ '' <- '' @ join ''|'' (map page_content docs))"

definition whole_text_split :: "string \<Rightarrow> string list" where
  "whole_text_split t = [t]"

definition demo_uuid :: "nat \<Rightarrow> string" where
  "demo_uuid i = ''uuid-'' @ str_nat i"

definition demo_world :: "(string \<times> real) list \<Rightarrow> world" where
  "demo_world table =
     \<lparr>TOP_K_RETRIEVAL = 5,
      upload_dir = ''./data/raw'',
      search_backend = knn_backend (table_distance table),
      qa_chain = echo_chain,
      extract_text = Inr,
      recursive_split = whole_text_split,
      ollama_failure = None,
      uuid4 = demo_uuid,
      utcnow = ''2024-01-01T00:00:00''\<rparr>"


definition new_rag_service :: RAGService where
  "new_rag_service = \<lparr>conversations = Map.empty, generate_calls = []\<rparr>"

definition demo_collection :: collection where
  "demo_collection =
     [\<lparr>entry_id = ''id-a'', page_content = ''alpha'', entry_metadata = Map.empty\<rparr>,
      \<lparr>entry_id = ''id-b'', page_content = ''beta'', entry_metadata = Map.empty\<rparr>,
      \<lparr>entry_id = ''id-c'', page_content = ''gamma'', entry_metadata = Map.empty\<rparr>]"

section \<open>Properties of the chunker\<close>

subsection \<open>A rule for loop invariants\<close>

text \<open>
  If the loop returns, an invariant of the pair (start, chunks) that holds at entry and
  is kept by one round holds at exit, where the start is no longer below the length of
  the text.
\<close>

lemma split_loop_invariant:
  assumes run: "split_loop self text start acc = Some chunks"
    and init: "I start acc"
    and step: "\<And>s a. I s a \<Longrightarrow> s < int (length text) \<Longrightarrow>
        I (if window_end self text s < int (length text)
           then window_end self text s - chunk_overlap self
           else int (length text))
          (if strip (py_slice text s (window_end self text s)) \<noteq> []
           then a @ [strip (py_slice text s (window_end self text s))]
           else a)"
  shows "\<exists>s. I s chunks \<and> \<not> s < int (length text)"
proof -
  let ?P = "\<lambda>self' text' st ac ch. self' = self \<and> text' = text \<longrightarrow> I st ac \<longrightarrow>
          (\<exists>s. I s ch \<and> \<not> s < int (length text))"
  have "?P self text start acc chunks"
  proof (rule split_loop.raw_induct [where P = ?P, OF _ run])
    fix loop self' text' st ac ch
    assume IH: "\<And>self' text' st ac ch. loop self' text' st ac = Some ch \<Longrightarrow> ?P self' text' st ac ch"
      and body: "(if st < int (length text') then
            loop self' text'
              (if window_end self' text' st < int (length text')
               then window_end self' text' st - chunk_overlap self'
               else int (length text'))
              (if strip (py_slice text' st (window_end self' text' st)) \<noteq> []
               then ac @ [strip (py_slice text' st (window_end self' text' st))]
               else ac)
          else Some ac) = Some ch"
    show "?P self' text' st ac ch"
    proof (intro impI, elim conjE)
      assume eq: "self' = self" "text' = text" and inv: "I st ac"
      show "\<exists>s. I s ch \<and> \<not> s < int (length text)"
      proof (cases "st < int (length text)")
        case True
        have rec: "loop self text
              (if window_end self text st < int (length text)
               then window_end self text st - chunk_overlap self
               else int (length text))
              (if strip (py_slice text st (window_end self text st)) \<noteq> []
               then ac @ [strip (py_slice text st (window_end self text st))]
               else ac) = Some ch"
          using body True unfolding eq by (simp only: if_True)
        from IH [OF rec] step [OF inv True] show ?thesis by blast
      next
        case False
        with body eq have "ch = ac" by simp
        with inv False show ?thesis by blast
      qed
    qed
  qed
  with init show ?thesis by blast
qed

subsection \<open>Trimming\<close>

lemma dropWhile_id: "xs = [] \<or> \<not> P (hd xs) \<Longrightarrow> dropWhile P xs = xs"
  by (cases xs) auto

lemma last_dropWhile_eq: "dropWhile P xs \<noteq> [] \<Longrightarrow> last (dropWhile P xs) = last xs"
  by (induction xs) auto

lemma rstrip_last: "rstrip s = [] \<or> \<not> py_isspace (last (rstrip s))"
proof (cases "dropWhile py_isspace (rev s) = []")
  case True
  then show ?thesis by (simp add: rstrip_def)
next
  case False
  then have "\<not> py_isspace (hd (dropWhile py_isspace (rev s)))"
    by (rule hd_dropWhile)
  with False show ?thesis by (simp add: rstrip_def last_rev)
qed

lemma rstrip_id: "s = [] \<or> \<not> py_isspace (last s) \<Longrightarrow> rstrip s = s"
proof -
  assume "s = [] \<or> \<not> py_isspace (last s)"
  then have "rev s = [] \<or> \<not> py_isspace (hd (rev s))"
    by (auto simp: hd_rev)
  then have "dropWhile py_isspace (rev s) = rev s" by (rule dropWhile_id)
  then show ?thesis by (simp add: rstrip_def)
qed

lemma strip_hd_last:
  "strip s = [] \<or> (\<not> py_isspace (hd (strip s)) \<and> \<not> py_isspace (last (strip s)))"
proof (cases "strip s = []")
  case True then show ?thesis by simp
next
  case False
  then have ne: "dropWhile py_isspace (rstrip s) \<noteq> []"
    by (simp add: strip_def lstrip_def)
  then have "rstrip s \<noteq> []" by auto
  with rstrip_last have "\<not> py_isspace (last (rstrip s))" by blast
  with last_dropWhile_eq [OF ne] have "\<not> py_isspace (last (strip s))"
    by (simp add: strip_def lstrip_def)
  moreover from hd_dropWhile [OF ne] have "\<not> py_isspace (hd (strip s))"
    by (simp add: strip_def lstrip_def)
  ultimately show ?thesis by simp
qed

lemma strip_idem: "strip (strip s) = strip s"
proof -
  from strip_hd_last [of s]
  have a: "strip s = [] \<or> \<not> py_isspace (last (strip s))"
    and b: "strip s = [] \<or> \<not> py_isspace (hd (strip s))" by auto
  have "rstrip (strip s) = strip s" using a by (rule rstrip_id)
  moreover have "lstrip (strip s) = strip s"
    unfolding lstrip_def using b by (rule dropWhile_id)
  ultimately show ?thesis by (simp add: strip_def [of "strip s"])
qed


subsection \<open>Slices, searches and window ends\<close>

lemma py_index_int:
  "0 \<le> n \<Longrightarrow> int (py_index n i) = (if i < 0 then max (i + n) 0 else min i n)"
  by (simp add: py_index_def)

lemma py_index_le: "0 \<le> n \<Longrightarrow> int (py_index n i) \<le> n"
  by (simp add: py_index_int)

lemma py_slice_length:
  "int (length (py_slice t i j)) =
     max 0 (int (py_index (int (length t)) j) - int (py_index (int (length t)) i))"
proof -
  have "py_index (int (length t)) j \<le> length t"
    using py_index_le [of "int (length t)" j] by simp
  then show ?thesis
    by (simp add: py_slice_def Let_def)
qed

lemma py_slice_whole: "int (length t) \<le> j \<Longrightarrow> py_slice t 0 j = t"
  by (simp add: py_slice_def py_index_def)

lemma set_py_slice: "set (py_slice t i j) \<subseteq> set t"
  unfolding py_slice_def Let_def
  by (meson set_take_subset set_drop_subset subset_trans)

lemma rfind_at_range: "rfind_at s sub i = - 1 \<or> (0 \<le> rfind_at s sub i \<and> rfind_at s sub i \<le> int i)"
  by (induction i) auto

lemma rfind_range:
  "rfind s sub = - 1 \<or> (0 \<le> rfind s sub \<and> rfind s sub + int (length sub) \<le> int (length s))"
proof (cases "length s < length sub")
  case True
  then show ?thesis by (simp add: rfind_def)
next
  case False
  with rfind_at_range [of s sub "length s - length sub"] show ?thesis
    by (auto simp: rfind_def)
qed

lemma best_pos_step_range:
  assumes "- 1 \<le> b" and "b \<le> int (length s)"
  shows "- 1 \<le> best_pos_step s b e \<and> best_pos_step s b e \<le> int (length s)"
  using assms rfind_range [of s e]
  by (auto simp: best_pos_step_def Let_def)

lemma foldl_best_pos_range:
  "- 1 \<le> b \<Longrightarrow> b \<le> int (length s) \<Longrightarrow>
   - 1 \<le> foldl (best_pos_step s) b es \<and> foldl (best_pos_step s) b es \<le> int (length s)"
proof (induction es arbitrary: b)
  case Nil
  then show ?case by simp
next
  case (Cons e es)
  from best_pos_step_range [OF Cons.prems, of e] Cons.IH [of "best_pos_step s b e"]
  show ?case by simp
qed

lemma find_sentence_boundary_range:
  "find_sentence_boundary text start e = - 1 \<or>
   (max start (e - 100) < find_sentence_boundary text start e \<and>
    find_sentence_boundary text start e
      \<le> max start (e - 100) + int (length (py_slice text (max start (e - 100)) e)))"
  using foldl_best_pos_range [of "- 1" "py_slice text (max start (e - 100)) e" sentence_endings]
  by (auto simp: find_sentence_boundary_def Let_def)

lemma find_word_boundary_range:
  "find_word_boundary text start e = e \<or>
   (max start (e - 50) < find_word_boundary text start e \<and>
    find_word_boundary text start e
      \<le> max start (e - 50) + int (length (py_slice text (max start (e - 50)) e)))"
  using rfind_range [of "py_slice text (max start (e - 50)) e" "'' ''"]
  by (auto simp: find_word_boundary_def Let_def)

lemma boundary_in_window:
  assumes "chunk_size self < int (length text)" and "1 \<le> chunk_size self"
    and "- chunk_size self \<le> start"
    and "start + chunk_size self < int (length text)"
    and "0 \<le> k"
    and "max start (start + chunk_size self - k) < r"
    and "r \<le> max start (start + chunk_size self - k)
            + int (length (py_slice text (max start (start + chunk_size self - k))
                                   (start + chunk_size self)))"
  shows "0 < r \<and> r \<le> start + chunk_size self"
  using assms
  by (simp add: py_slice_length py_index_int max_def min_def split: if_splits)

lemma window_end_range:
  assumes big: "chunk_size self < int (length text)" and pos: "1 \<le> chunk_size self"
    and lo: "- chunk_size self \<le> start"
  shows "(window_end self text start = - 1 \<and> start < - 1) \<or>
         (0 \<le> window_end self text start \<and> start < window_end self text start \<and>
          window_end self text start \<le> start + chunk_size self)"
proof (cases "start + chunk_size self < int (length text)")
  case False
  then show ?thesis using pos lo by (simp add: window_end_def Let_def)
next
  case True
  let ?e0 = "start + chunk_size self"
  let ?r1 = "find_sentence_boundary text start ?e0"
  let ?r2 = "find_word_boundary text start ?e0"
  show ?thesis
  proof (cases "?r1 > start")
    case r1: True
    then have we: "window_end self text start = ?r1"
      using True by (simp add: window_end_def Let_def)
    have "?r1 = - 1 \<or> (max start (?e0 - 100) < ?r1 \<and>
        ?r1 \<le> max start (?e0 - 100) + int (length (py_slice text (max start (?e0 - 100)) ?e0)))"
      by (rule find_sentence_boundary_range)
    then show ?thesis
    proof
      assume "?r1 = - 1"
      with r1 we show ?thesis by simp
    next
      assume "max start (?e0 - 100) < ?r1 \<and>
        ?r1 \<le> max start (?e0 - 100) + int (length (py_slice text (max start (?e0 - 100)) ?e0))"
      then have "0 < ?r1 \<and> ?r1 \<le> ?e0"
        using boundary_in_window [OF big pos lo True, of 100 "?r1"] by simp
      with r1 we show ?thesis by simp
    qed
  next
    case r1: False
    show ?thesis
    proof (cases "?r2 > start")
      case r2: True
      then have we: "window_end self text start = ?r2"
        using True r1 by (simp add: window_end_def Let_def)
      have "?r2 = ?e0 \<or> (max start (?e0 - 50) < ?r2 \<and>
          ?r2 \<le> max start (?e0 - 50) + int (length (py_slice text (max start (?e0 - 50)) ?e0)))"
        by (rule find_word_boundary_range)
      then show ?thesis
      proof
        assume "?r2 = ?e0"
        with we pos lo show ?thesis by simp
      next
        assume "max start (?e0 - 50) < ?r2 \<and>
          ?r2 \<le> max start (?e0 - 50) + int (length (py_slice text (max start (?e0 - 50)) ?e0))"
        then have "0 < ?r2 \<and> ?r2 \<le> ?e0"
          using boundary_in_window [OF big pos lo True, of 50 "?r2"] by simp
        with r2 we show ?thesis by simp
      qed
    next
      case r2: False
      then have "window_end self text start = ?e0"
        using True r1 by (simp add: window_end_def Let_def)
      with pos lo show ?thesis by simp
    qed
  qed
qed

lemma window_length:
  assumes pos: "1 \<le> chunk_size self" and lo: "- chunk_size self \<le> start"
    and e: "(e = - 1 \<and> start < - 1) \<or> (0 \<le> e \<and> e \<le> start + chunk_size self)"
  shows "int (length (py_slice text start e)) \<le> chunk_size self"
  using assms
  by (auto simp add: py_slice_length py_index_int max_def min_def split: if_splits)

lemma length_strip_le: "length (strip s) \<le> length s"
proof -
  have "length (dropWhile P xs) \<le> length xs" for P and xs :: string
    by (induction xs) auto
  from this [of py_isspace "rstrip s"] this [of py_isspace "rev s"]
  show ?thesis by (simp add: strip_def lstrip_def rstrip_def)
qed

subsection \<open>A text that fits into one window\<close>

lemma split_loop_exit: "\<not> start < int (length text) \<Longrightarrow> split_loop self text start chunks = Some chunks"
  by (subst split_loop.simps) simp

lemma split_text_single_window:
  assumes ne: "text \<noteq> []" and fit: "int (length text) \<le> chunk_size self"
  shows "split_text self text = Some (if strip text = [] then [] else [strip text])"
proof -
  from fit have we: "window_end self text 0 = chunk_size self"
    by (simp add: window_end_def)
  from fit have sl: "py_slice text 0 (chunk_size self) = text"
    by (rule py_slice_whole)
  from ne have lt: "0 < int (length text)" by simp
  have "split_loop self text 0 [] =
          split_loop self text (int (length text)) (if strip text \<noteq> [] then [] @ [strip text] else [])"
    by (subst split_loop.simps) (use fit lt in \<open>simp only: we sl if_True if_False not_less[symmetric]\<close>)
  also have "\<dots> = Some (if strip text \<noteq> [] then [] @ [strip text] else [])"
    by (rule split_loop_exit) simp
  finally show ?thesis using ne by (simp add: split_text_def)
qed

lemma strip_blank: "\<forall>c\<in>set s. py_isspace c \<Longrightarrow> strip s = []"
proof -
  assume a: "\<forall>c\<in>set s. py_isspace c"
  then have d: "dropWhile py_isspace (rev s) = []" by simp
  show ?thesis
    by (simp only: strip_def lstrip_def rstrip_def d rev.simps dropWhile.simps)
qed

subsection \<open>Returning and not returning\<close>

text \<open>
  With a chunk size of at least 1 and an overlap that is not positive, every round moves
  the start forward, and \<open>split_text\<close> returns on every text.
\<close>

lemma window_end_advances:
  assumes "1 \<le> chunk_size self"
  shows "start < window_end self text start"
  using assms by (simp add: window_end_def Let_def)

lemma split_loop_returns:
  assumes pos: "1 \<le> chunk_size self" and ov: "chunk_overlap self \<le> 0"
  shows "\<exists>chunks. split_loop self text start acc = Some chunks"
proof (induction "nat (int (length text) - start)" arbitrary: start acc rule: less_induct)
  case less
  show ?case
  proof (cases "start < int (length text)")
    case False
    then show ?thesis by (simp add: split_loop_exit)
  next
    case True
    let ?e = "window_end self text start"
    let ?s = "if ?e < int (length text) then ?e - chunk_overlap self else int (length text)"
    let ?a = "if strip (py_slice text start ?e) \<noteq> [] then acc @ [strip (py_slice text start ?e)] else acc"
    from window_end_advances [OF pos, of start "text"] ov have "start < ?s"
      using True by auto
    then have "nat (int (length text) - ?s) < nat (int (length text) - start)"
      using True by auto
    from less [OF this, of ?a] obtain chunks where "split_loop self text ?s ?a = Some chunks" ..
    moreover have "split_loop self text start acc = split_loop self text ?s ?a"
      by (subst split_loop.simps) (use True in \<open>simp only: if_True\<close>)
    ultimately show ?thesis by simp
  qed
qed

lemma split_text_returns:
  assumes "1 \<le> chunk_size self" and "chunk_overlap self \<le> 0"
  shows "\<exists>chunks. split_text self text = Some chunks"
  using split_loop_returns [OF assms] by (simp add: split_text_def)

text \<open>
  A positive overlap can move the start back to where it was, also when it is below the
  chunk size: with chunk size 10 and overlap 2 the window that starts at the sentence
  end of the text below is cut after two characters, the next start is the old one, and
  the call does not return.
\<close>

lemma stuck_window:
  "window_end \<lparr>chunk_size = 10, chunk_overlap = 2\<rparr> ''Hello world. Foo bar baz'' 11 = 13"
  by code_simp

lemma stuck_loop:
  "split_loop \<lparr>chunk_size = 10, chunk_overlap = 2\<rparr> ''Hello world. Foo bar baz'' 11 acc = None"
proof -
  let ?s = "\<lparr>chunk_size = 10, chunk_overlap = 2\<rparr>"
  let ?t = "''Hello world. Foo bar baz''"
  let ?P = "\<lambda>self' text' (st :: int) (ac :: string list) (ch :: string list).
              \<not> (self' = ?s \<and> text' = ?t \<and> st = 11)"
  have "?P ?s ?t 11 acc chunks" if run: "split_loop ?s ?t 11 acc = Some chunks" for chunks
  proof (rule split_loop.raw_induct [where P = ?P, OF _ run])
    fix loop self' text' st ac ch
    assume IH: "\<And>self' text' st ac ch. loop self' text' st ac = Some ch \<Longrightarrow> ?P self' text' st ac ch"
      and body: "(if st < int (length text') then
            loop self' text'
              (if window_end self' text' st < int (length text')
               then window_end self' text' st - chunk_overlap self'
               else int (length text'))
              (if strip (py_slice text' st (window_end self' text' st)) \<noteq> []
               then ac @ [strip (py_slice text' st (window_end self' text' st))]
               else ac)
          else Some ac) = Some ch"
    show "?P self' text' st ac ch"
    proof
      assume eq: "self' = ?s \<and> text' = ?t \<and> st = 11"
      then have "\<exists>ac'. loop ?s ?t 11 ac' = Some ch"
        using body by (auto simp: stuck_window split: if_splits)
      then show False using IH by blast
    qed
  qed
  then have "split_loop ?s ?t 11 acc \<noteq> Some chunks" for chunks by blast
  then show ?thesis by (cases "split_loop ?s ?t 11 acc") auto
qed

lemma split_text_may_not_return:
  "split_text \<lparr>chunk_size = 10, chunk_overlap = 2\<rparr> ''Hello world. Foo bar baz'' = None"
proof -
  let ?s = "\<lparr>chunk_size = 10, chunk_overlap = 2\<rparr>"
  let ?t = "''Hello world. Foo bar baz''"
  have w0: "window_end ?s ?t 0 = 6" and w4: "window_end ?s ?t 4 = 13" by code_simp+
  have "split_loop ?s ?t 0 [] = split_loop ?s ?t 4 [''Hello'']"
    by (subst split_loop.simps) (simp add: w0 py_slice_def py_index_def strip_def lstrip_def rstrip_def py_isspace_def)
  also have "\<dots> = split_loop ?s ?t 11 [''Hello'', ''o world.'']"
    by (subst split_loop.simps) (simp add: w4 py_slice_def py_index_def strip_def lstrip_def rstrip_def py_isspace_def)
  also have "\<dots> = None" by (rule stuck_loop)
  finally show ?thesis by (simp add: split_text_def)
qed

subsection \<open>No chunk is longer than the chunk size\<close>

text \<open>
  Claim C8. With a chunk size of at least 1 and an overlap below the chunk size, every
  chunk that \<open>split_text\<close> returns has at most \<open>chunk_size\<close> characters. The bound
  holds for every text, so the exception that the claim grants to texts with an overlong
  word is never needed. The overlap hypothesis is used: it keeps a start position that
  has become negative above \<open>- chunk_size\<close>.
\<close>

theorem split_text_chunk_length:
  assumes pos: "1 \<le> chunk_size self" and ov: "chunk_overlap self < chunk_size self"
    and run: "split_text self text = Some chunks" and mem: "c \<in> set chunks"
  shows "int (length c) \<le> chunk_size self"
proof (cases "text = []")
  case True
  with run mem show ?thesis by (simp add: split_text_def)
next
  case ne: False
  show ?thesis
  proof (cases "int (length text) \<le> chunk_size self")
    case True
    from split_text_single_window [OF ne True] run mem have "c = strip text"
      by (auto split: if_splits)
    with length_strip_le [of "text"] True show ?thesis by simp
  next
    case False
    then have big: "chunk_size self < int (length text)" by simp
    from run ne have loop: "split_loop self text 0 [] = Some chunks"
      by (simp add: split_text_def)
    let ?I = "\<lambda>s (a :: string list). - chunk_size self \<le> s \<and> (\<forall>c\<in>set a. int (length c) \<le> chunk_size self)"
    have "\<exists>s. ?I s chunks \<and> \<not> s < int (length text)"
    proof (rule split_loop_invariant [OF loop, where I = ?I])
      show "?I 0 []" using pos by simp
    next
      fix s :: int and a :: "string list"
      assume inv: "?I s a" and "s < int (length text)"
      then have lo: "- chunk_size self \<le> s" by simp
      let ?e = "window_end self text s"
      have rng: "(?e = - 1 \<and> s < - 1) \<or> (0 \<le> ?e \<and> s < ?e \<and> ?e \<le> s + chunk_size self)"
        by (rule window_end_range [OF big pos lo])
      then have "int (length (py_slice text s ?e)) \<le> chunk_size self"
        by (intro window_length [OF pos lo]) auto
      with length_strip_le [of "py_slice text s ?e"]
      have len: "int (length (strip (py_slice text s ?e))) \<le> chunk_size self" by simp
      from rng ov have nxt: "- chunk_size self \<le> ?e - chunk_overlap self" by auto
      from pos have "- chunk_size self \<le> int (length text)" by simp
      with nxt len inv
      show "?I (if ?e < int (length text) then ?e - chunk_overlap self else int (length text))
               (if strip (py_slice text s ?e) \<noteq> [] then a @ [strip (py_slice text s ?e)] else a)"
        by simp
    qed
    with mem show ?thesis by blast
  qed
qed

theorem split_text_chunk_length_witness:
  "(1::int) \<le> chunk_size \<lparr>chunk_size = 10, chunk_overlap = 1\<rparr>
   \<and> chunk_overlap \<lparr>chunk_size = 10, chunk_overlap = 1\<rparr> < chunk_size \<lparr>chunk_size = 10, chunk_overlap = 1\<rparr>
   \<and> split_text \<lparr>chunk_size = 10, chunk_overlap = 1\<rparr> ''Hello world. Foo bar baz''
       = Some [''Hello'', ''world.'', ''Foo bar'', ''baz'']
   \<and> int (length ''Foo bar'') \<le> chunk_size \<lparr>chunk_size = 10, chunk_overlap = 1\<rparr>"
proof -
  let ?s = "\<lparr>chunk_size = 10, chunk_overlap = 1\<rparr>"
  have pos: "1 \<le> chunk_size ?s" and ov: "chunk_overlap ?s < chunk_size ?s" by simp_all
  have run: "split_text ?s ''Hello world. Foo bar baz''
       = Some [''Hello'', ''world.'', ''Foo bar'', ''baz'']"
    by code_simp
  have mem: "''Foo bar'' \<in> set [''Hello'', ''world.'', ''Foo bar'', ''baz'']" by simp
  from split_text_chunk_length [OF pos ov run mem] pos ov run show ?thesis by simp
qed

subsection \<open>Empty and blank texts\<close>

text \<open>
  Claim C7 says that an empty or whitespace-only text is rejected with an error. The
  source returns the empty list instead: at once for the empty text (line 34), and for a
  blank text because every window is empty after trimming.
\<close>

theorem blank_text_counterexample:
  "split_text \<lparr>chunk_size = 1000, chunk_overlap = 200\<rparr> [] = Some [] \<and>
   split_text \<lparr>chunk_size = 1000, chunk_overlap = 200\<rparr> ''   '' = Some []"
  by code_simp


text \<open>
  Claim C7 as amended. For a text that is empty or consists of whitespace only,
  \<open>split_text\<close> raises no error: whenever it returns, it returns the empty list, and
  it does return the empty list when the text is no longer than the chunk size.
\<close>

theorem split_text_blank:
  assumes blank: "\<forall>c\<in>set text. py_isspace c"
  shows "(\<forall>chunks. split_text self text = Some chunks \<longrightarrow> chunks = []) \<and>
         (int (length text) \<le> chunk_size self \<longrightarrow> split_text self text = Some [])"
proof (cases "text = []")
  case True
  then show ?thesis by (simp add: split_text_def)
next
  case ne: False
  have all: "chunks = []" if run: "split_text self text = Some chunks" for chunks
  proof -
    from run ne have loop: "split_loop self text 0 [] = Some chunks"
      by (simp add: split_text_def)
    have "\<exists>s. chunks = [] \<and> \<not> s < int (length text)"
    proof (rule split_loop_invariant [OF loop, where I = "\<lambda>s a. a = []"])
      fix s :: int and a :: "string list"
      assume "a = []"
      moreover have "strip (py_slice text s (window_end self text s)) = []"
        using blank set_py_slice [of "text" s "window_end self text s"]
        by (intro strip_blank) blast
      ultimately show "(if strip (py_slice text s (window_end self text s)) \<noteq> []
             then a @ [strip (py_slice text s (window_end self text s))] else a) = []"
        by simp
    qed simp
    then show ?thesis by simp
  qed
  moreover have "split_text self text = Some []" if "int (length text) \<le> chunk_size self"
    using split_text_single_window [OF ne that] strip_blank [OF blank] by simp
  ultimately show ?thesis by blast
qed

theorem split_text_blank_witness:
  "py_isspace CHR '' ''
   \<and> split_text \<lparr>chunk_size = 1000, chunk_overlap = 200\<rparr> ''  '' = Some []"
proof -
  have sp: "py_isspace CHR '' ''" by (simp add: py_isspace_def)
  then have blank: "\<forall>c\<in>set ''  ''. py_isspace c" by simp
  from split_text_blank [OF blank, of "\<lparr>chunk_size = 1000, chunk_overlap = 200\<rparr>"] sp
  show ?thesis by simp
qed

subsection \<open>The splitter does not validate its parameters\<close>

text \<open>
  Claim C2 says that chunking with an overlap of at least the chunk size fails with an
  error. \<open>TextSplitter\<close> stores its parameters unchecked and \<open>split_text\<close> never
  raises: with chunk size 100 and overlap 100 a short text comes back as one chunk.
\<close>

theorem overlap_equal_size_counterexample:
  "split_text \<lparr>chunk_size = 100, chunk_overlap = 100\<rparr> ''abc'' = Some [''abc'']"
  by code_simp


text \<open>
  Claim C2 as amended. The constraint that the overlap is below the chunk size is
  enforced where the configuration is loaded: \<open>validate_chunk_overlap\<close> rejects an
  overlap of at least the chunk size. \<open>TextSplitter\<close> itself accepts such parameters,
  and for a non-empty text no longer than the chunk size \<open>split_text\<close> returns the
  trimmed text as the only chunk (no chunk if the text is blank).
\<close>

theorem text_splitter_accepts_any_overlap:
  assumes "text \<noteq> []" and "int (length text) \<le> chunk_size self"
    and "chunk_size self \<le> chunk_overlap self"
  shows "split_text self text = Some (if strip text = [] then [] else [strip text]) \<and>
         (\<exists>e. validate_chunk_overlap (chunk_overlap self) [''CHUNK_SIZE'' \<mapsto> chunk_size self] = Inl e)"
  using assms split_text_single_window [of "text" self]
  by (simp add: validate_chunk_overlap_def)

theorem text_splitter_accepts_any_overlap_witness:
  "''abc'' \<noteq> [] \<and> int (length ''abc'') \<le> chunk_size \<lparr>chunk_size = 100, chunk_overlap = 100\<rparr>
   \<and> chunk_size \<lparr>chunk_size = 100, chunk_overlap = 100\<rparr>
        \<le> chunk_overlap \<lparr>chunk_size = 100, chunk_overlap = 100\<rparr>
   \<and> split_text \<lparr>chunk_size = 100, chunk_overlap = 100\<rparr> ''abc'' = Some [''abc'']
   \<and> (\<exists>e. validate_chunk_overlap 100 [''CHUNK_SIZE'' \<mapsto> 100] = Inl e)"
proof -
  let ?s = "\<lparr>chunk_size = 100, chunk_overlap = 100\<rparr>"
  have a: "''abc'' \<noteq> []" and b: "int (length ''abc'') \<le> chunk_size ?s"
    and c: "chunk_size ?s \<le> chunk_overlap ?s" by simp_all
  have "strip ''abc'' = ''abc''"
    by (simp add: strip_def lstrip_def rstrip_def py_isspace_def)
  with text_splitter_accepts_any_overlap [OF a b c] a b c show ?thesis by simp
qed

subsection \<open>Chunks are trimmed and non-empty\<close>

text \<open>
  Claim C10. Whenever \<open>split_text\<close> returns, every chunk of the returned list is a
  non-empty string without leading or trailing whitespace: each chunk equals its own
  \<open>strip\<close>, and a window that is empty after trimming is skipped.
\<close>

theorem split_text_chunks_stripped:
  assumes "split_text self text = Some chunks" and "c \<in> set chunks"
  shows "c \<noteq> [] \<and> strip c = c"
proof (cases "text = []")
  case True
  with assms show ?thesis by (simp add: split_text_def)
next
  case False
  with assms(1) have run: "split_loop self text 0 [] = Some chunks"
    by (simp add: split_text_def)
  have "\<exists>s. (\<forall>c\<in>set chunks. c \<noteq> [] \<and> strip c = c) \<and> \<not> s < int (length text)"
    by (rule split_loop_invariant [OF run, where I = "\<lambda>s a. \<forall>c\<in>set a. c \<noteq> [] \<and> strip c = c"])
       (auto simp: strip_idem)
  with assms(2) show ?thesis by blast
qed

theorem split_text_chunks_stripped_witness:
  "split_text \<lparr>chunk_size = 10, chunk_overlap = 0\<rparr> ''Hello world. Foo bar baz''
     = Some [''Hello'', ''world.'', ''Foo bar'', ''baz'']
   \<and> ''world.'' \<in> set [''Hello'', ''world.'', ''Foo bar'', ''baz'']
   \<and> ''world.'' \<noteq> [] \<and> strip ''world.'' = ''world.''"
proof -
  have run: "split_text \<lparr>chunk_size = 10, chunk_overlap = 0\<rparr> ''Hello world. Foo bar baz''
     = Some [''Hello'', ''world.'', ''Foo bar'', ''baz'']"
    by code_simp
  have mem: "''world.'' \<in> set [''Hello'', ''world.'', ''Foo bar'', ''baz'']"
    by simp
  from split_text_chunks_stripped [OF run mem] run mem show ?thesis by simp
qed

section \<open>Properties of the similarity search\<close>

lemma similarity_score_antimono: "a \<le> b \<Longrightarrow> similarity_score b \<le> similarity_score a"
  by (simp add: similarity_score_def)

lemma similarity_score_range: "0 \<le> d \<Longrightarrow> 0 \<le> similarity_score d \<and> similarity_score d \<le> 1"
  by (simp add: similarity_score_def)

lemma result_score_format: "result_score (format_result (e, d)) = similarity_score d"
  by (simp add: format_result_def)

lemma map_score_format:
  "map result_score (map format_result hits) = map similarity_score (map snd hits)"
  by (induction hits) (auto simp: format_result_def)

lemma sorted_rev_scores: "sorted ds \<Longrightarrow> sorted (rev (map similarity_score ds))"
proof (induction ds)
  case Nil
  then show ?case by simp
next
  case (Cons d ds)
  then show ?case
    by (auto simp: sorted_append similarity_score_antimono)
qed

lemma demo_hits:
  "search_backend (demo_world [(''alpha'', 1/2), (''beta'', 1/4), (''gamma'', 3/2)])
      demo_collection ''q'' 2
   = Inr [(\<lparr>entry_id = ''id-b'', page_content = ''beta'', entry_metadata = Map.empty\<rparr>, 1/4),
          (\<lparr>entry_id = ''id-a'', page_content = ''alpha'', entry_metadata = Map.empty\<rparr>, 1/2)]"
  by (simp add: demo_world_def knn_backend_def table_distance_def demo_collection_def)

subsection \<open>Order and number of the results\<close>

text \<open>
  Claim C9 (retrieval monotonicity). For a query and a positive \<open>k\<close>, when the backend
  answers with at most \<open>k\<close> hits taken from the index and ordered by non-decreasing
  distance, \<open>similarity_search\<close> returns (without an error) at most \<open>k\<close> results whose
  scores are in non-increasing order, and the empty list when the index holds no vector.
\<close>

theorem similarity_search_monotone:
  assumes k: "0 < k"
    and hits: "search_backend w coll q k = Inr hits"
    and len: "length hits \<le> nat k"
    and ordered: "sorted (map snd hits)"
    and from_index: "fst ` set hits \<subseteq> set coll"
  shows "\<exists>docs. similarity_search w coll q (Some k) = Inr docs
           \<and> length docs \<le> nat k
           \<and> sorted (rev (map result_score docs))
           \<and> (coll = [] \<longrightarrow> docs = [])"
proof -
  have s: "similarity_search w coll q (Some k) = Inr (map format_result hits)"
    using hits by (simp add: similarity_search_def)
  have "sorted (rev (map result_score (map format_result hits)))"
    using sorted_rev_scores [OF ordered] by (simp only: map_score_format)
  moreover have "coll = [] \<longrightarrow> map format_result hits = []"
    using from_index by auto
  ultimately show ?thesis using s len by simp
qed

theorem similarity_search_monotone_witness:
  "\<exists>docs. similarity_search (demo_world [(''alpha'', 1/2), (''beta'', 1/4), (''gamma'', 3/2)])
              demo_collection ''q'' (Some 2) = Inr docs
           \<and> length docs \<le> nat 2
           \<and> sorted (rev (map result_score docs))
           \<and> (demo_collection = [] \<longrightarrow> docs = [])"
  by (rule similarity_search_monotone [OF _ demo_hits]) (simp_all add: demo_collection_def)

subsection \<open>The range of the score\<close>

text \<open>
  For a distance that is not negative, the conversion of line 225 gives a score between
  0 and 1: \<open>1 - distance\<close> below 1, and 0 from 1 on.
\<close>

lemma similarity_search_score_range:
  assumes hits: "search_backend w coll q k = Inr hits"
    and nonneg: "\<forall>h\<in>set hits. 0 \<le> snd h"
  shows "\<exists>docs. similarity_search w coll q (Some k) = Inr docs
           \<and> map result_score docs = map (\<lambda>h. if snd h < 1 then 1 - snd h else 0) hits
           \<and> (\<forall>doc\<in>set docs. 0 \<le> result_score doc \<and> result_score doc \<le> 1)"
proof -
  have s: "similarity_search w coll q (Some k) = Inr (map format_result hits)"
    using hits by (simp add: similarity_search_def)
  have "map result_score (map format_result hits) = map (\<lambda>h. if snd h < 1 then 1 - snd h else 0) hits"
    by (simp add: format_result_def similarity_score_def split_def)
  moreover have "\<forall>doc\<in>set (map format_result hits). 0 \<le> result_score doc \<and> result_score doc \<le> 1"
    using nonneg by (auto simp: format_result_def similarity_score_def split_def)
  ultimately show ?thesis using s by simp
qed

lemma similarity_search_score_range_example:
  "\<exists>docs. similarity_search (demo_world [(''alpha'', 1/2), (''beta'', 1/4), (''gamma'', 3/2)])
              demo_collection ''q'' (Some 2) = Inr docs
           \<and> map result_score docs = map (\<lambda>h. if snd h < 1 then 1 - snd h else 0)
                [(\<lparr>entry_id = ''id-b'', page_content = ''beta'', entry_metadata = Map.empty\<rparr>, 1/4),
                 (\<lparr>entry_id = ''id-a'', page_content = ''alpha'', entry_metadata = Map.empty\<rparr>, 1/2)]
           \<and> (\<forall>doc\<in>set docs. 0 \<le> result_score doc \<and> result_score doc \<le> 1)"
  by (rule similarity_search_score_range [OF demo_hits]) simp

text \<open>
  Claim C5 says that the score of every result lies between 0 and 1 for every distance
  the backend may report, a converted value outside that range (also one above 1, from a
  negative distance) being clamped to 0. The docstring of \<open>similarity_search\<close> and the
  schema of \<open>SourceDocument\<close> promise the same range. The conversion only guards the
  distances from 1 on. Evaluated on a hit whose cosine distance comes out just below
  zero, as the rounding of \<open>1 - cosine\<close> can give for a query that equals a stored
  chunk: the score is above 1, and \<open>query\<close> then fails when it builds the source.
\<close>

theorem negative_distance_score_above_one:
  "(let w = demo_world [(''alpha'', - 1 / 10000000)];
        coll = snd (add_documents w [''alpha''] [''filename'' \<mapsto> VStr ''f.txt''] [])
    in map_sum error_message (map result_score) (similarity_search w coll ''alpha'' (Some 1))
         = Inr [10000001 / 10000000]
       \<and> map_sum error_message (\<lambda>p. answer (fst p)) (query w new_rag_service coll ''alpha'' None 1)
         = Inl ''relevance_score: Input should be between 0 and 1'')"
  by code_simp

section \<open>Properties of the query pipeline\<close>

subsection \<open>A query that retrieves nothing\<close>

text \<open>
  Claim C4 says that a query without retrieved passages still appends the turn to the
  conversation store. The source returns at lines 55 to 60, before the generation and
  before \<open>_update_conversation\<close>: the conversation of the given id stays absent.
\<close>

theorem no_context_turn_not_recorded:
  "map_sum error_message
     (\<lambda>p. (answer (fst p), sources (fst p), conversation_id (fst p),
           map_option messages (conversations (snd p) ''c1''), generate_calls (snd p)))
     (query (demo_world []) new_rag_service [] ''What is a kernel?'' (Some ''c1'') 5)
   = Inr (no_information_answer, [], ''c1'', None, [])"
  by code_simp

text \<open>
  Claim C4 as amended. When the retrieval returns no passage, \<open>query\<close> returns the
  canned answer with an empty list of sources and the conversation id (the given one, or
  a new one when none or an empty one was given), and leaves the service as it was: the
  generation is not invoked and no turn is appended to the conversation store.
\<close>

theorem query_no_context:
  assumes "similarity_search w coll question (Some max_results) = Inr []"
  shows "query w self coll question cid max_results =
           Inr (\<lparr>answer = no_information_answer, sources = [],
                 conversation_id = (case cid of None \<Rightarrow> uuid4 w 0
                                    | Some c \<Rightarrow> if c = [] then uuid4 w 0 else c)\<rparr>,
                self)"
  using assms by (simp add: query_def)

lemma empty_index_search:
  "similarity_search (demo_world []) [] ''What is a kernel?'' (Some 5) = Inr []"
  by (simp add: similarity_search_def demo_world_def knn_backend_def)

theorem query_no_context_witness:
  "query (demo_world []) new_rag_service [] ''What is a kernel?'' (Some ''c1'') 5 =
     Inr (\<lparr>answer = no_information_answer, sources = [], conversation_id = ''c1''\<rparr>,
          new_rag_service)"
  using query_no_context [OF empty_index_search, of new_rag_service "Some ''c1''"] by simp

subsection \<open>What the generation is given\<close>

text \<open>
  Claim C3 says that the generation is invoked with the context assembled from the
  retrieved passages and the conversation history, and that the answer is generated
  from exactly those passages. Evaluated on an index of two chunks with
  \<open>max_results = 1\<close>: one passage is retrieved and reported as source, while the chain
  behind \<open>generate_response\<close> receives the question and both chunks (its own retrieval
  with \<open>TOP_K_RETRIEVAL = 5\<close>), and the answer is the same with and without an earlier
  turn in the conversation.
\<close>

theorem query_answer_not_from_context:
  "(let w = demo_world [(''alpha'', 1/4), (''beta'', 1/2)];
        coll = snd (add_documents w [''alpha'', ''beta''] [''filename'' \<mapsto> VStr ''f.txt''] []);
        self1 = update_conversation w ''c1'' ''earlier question'' ''earlier answer'' new_rag_service
    in map_sum error_message (map result_content) (similarity_search w coll ''q'' (Some 1))
         = Inr [''alpha'']
       \<and> map_sum error_message
            (\<lambda>p. (answer (fst p), map chunk_id (sources (fst p)), generate_calls (snd p)))
            (query w new_rag_service coll ''q'' (Some ''c1'') 1)
          = Inr (''q <- alpha|beta'', [''uuid-1''], [''q''])
       \<and> map_sum error_message
            (\<lambda>p. (answer (fst p), map chunk_id (sources (fst p)), generate_calls (snd p)))
            (query w self1 coll ''q'' (Some ''c1'') 1)
          = Inr (''q <- alpha|beta'', [''uuid-1''], [''q'']))"
  by code_simp

subsection \<open>The file name of a source\<close>

text \<open>
  Claim C6 says that the sources of an answer carry the file name under which the
  chunks were added. Evaluated on five chunks added with the file name
  \<open>ml_basics.txt\<close> and a query with \<open>max_results = 3\<close>: the three retrieved passages
  have that file name in their metadata, and the three formatted sources have the file
  name \<open>Unknown\<close>, since \<open>_format_sources\<close> reads the key \<open>source\<close>.
\<close>

theorem format_sources_filename_unknown:
  "(let w = demo_world [(''c1'', 1/10), (''c2'', 3/10), (''c3'', 1/5), (''c4'', 9/10), (''c5'', 1/2)];
        coll = snd (add_documents w [''c1'', ''c2'', ''c3'', ''c4'', ''c5'']
                      [''filename'' \<mapsto> VStr ''ml_basics.txt''] [])
    in map_sum error_message (map (\<lambda>d. (result_content d, result_metadata d ''filename'')))
         (similarity_search w coll ''What is machine learning?'' (Some 3))
         = Inr [(''c1'', Some (VStr ''ml_basics.txt'')), (''c3'', Some (VStr ''ml_basics.txt'')),
                (''c2'', Some (VStr ''ml_basics.txt''))]
       \<and> map_sum error_message (\<lambda>p. map filename (sources (fst p)))
            (query w new_rag_service coll ''What is machine learning?'' None 3)
          = Inr [''Unknown'', ''Unknown'', ''Unknown''])"
  by code_simp

section \<open>Properties of the document service\<close>

text \<open>
  Whatever is uploaded, the ids stored with a document are one integer (the number of
  chunks added), and a deletion by such ids is refused by the backend: \<open>delete_document\<close>
  raises, and the document record, the file and the collection stay as they were.
\<close>

lemma process_document_chunk_ids:
  assumes "process_document w name file_content (ds, coll) = (Inr r, ds1, coll1)"
    and "0 < chunks_created r"
  shows "\<exists>m n. documents_metadata ds1 (up_document_id r) = Some m \<and> meta_chunk_ids m = [VInt n]"
  using assms
  by (auto simp: process_document_def Let_def split: sum.splits if_splits)

lemma delete_document_int_ids:
  assumes "documents_metadata ds d = Some m" and "meta_chunk_ids m = [VInt n]"
  shows "delete_document d (ds, coll) = (Inl (ValueError ''Expected ID to be a str''), ds, coll)"
  using assms
  by (simp add: delete_document_def delete_documents_def collection_delete_def Let_def)

lemma delete_document_after_upload:
  assumes "process_document w name file_content (ds, coll) = (Inr r, ds1, coll1)"
    and "0 < chunks_created r"
  shows "delete_document (up_document_id r) (ds1, coll1)
           = (Inl (ValueError ''Expected ID to be a str''), ds1, coll1)"
  using process_document_chunk_ids [OF assms] delete_document_int_ids by blast


end
